theory Spec2Isabelle
  imports Main
begin

section \<open>The token stream player of \<open>src/app/page.tsx\<close>\<close>

text \<open>
  The page is one React component, \<open>MarkdownStreamingDemo\<close>. Its \<open>useState\<close> cells are
  the fields of the record \<open>state\<close>; every event handler and every effect body is a
  function from the state before to the state after. The two libraries the component
  calls, the tokenizer (\<open>js-tiktoken\<close>) and the share codec (\<open>lz-string\<close>), are not part
  of the page: they are passed in as records of functions, and a call that throws is
  a result of its own.
\<close>

subsection \<open>State\<close>

text \<open>
  \<open>markdown\<close>, \<open>tokens\<close>, \<open>currentTokenIndex\<close>, \<open>isPlaying\<close> and \<open>playbackSpeed\<close> of lines
  53 to 58. Token ids are the non-negative numbers of a \<open>number[]\<close>; the cursor is a
  JavaScript number that only ever holds integers; the speed is a delay in milliseconds.
\<close>

record state =
  markdown :: string
  tokens :: "nat list"
  currentTokenIndex :: int
  isPlaying :: bool
  playbackSpeed :: nat

text \<open>
  The encoder object of line 56. \<open>encode\<close> and \<open>decode\<close> return \<open>None\<close> where the
  library call throws (both calls of the page sit inside \<open>try\<close>/\<open>catch\<close>).
\<close>

record tiktoken =
  encode :: "string \<Rightarrow> nat list option"
  decode :: "nat list \<Rightarrow> string option"




subsection \<open>Effects\<close>


text \<open>
  Lines 77 to 88. The effect does nothing for an empty text; the \<open>catch\<close> branch
  stores the empty token list and nothing else.
\<close>

definition tokenize_effect :: "tiktoken \<Rightarrow> state \<Rightarrow> state" where
  "tokenize_effect encoder s =
     (if markdown s \<noteq> [] then
        (case encode encoder (markdown s) of
           Some newTokens \<Rightarrow> s\<lparr>tokens := newTokens, currentTokenIndex := 0\<rparr>
         | None \<Rightarrow> s\<lparr>tokens := []\<rparr>)
      else s)"

text \<open>
  Lines 91 to 100. The effect either starts a timer (the second component is the delay
  handed to \<open>setTimeout\<close>), or clears \<open>isPlaying\<close>, or does nothing.
\<close>

definition autoplay_effect :: "state \<Rightarrow> state \<times> nat option" where
  "autoplay_effect s =
     (if isPlaying s \<and> currentTokenIndex s < int (length (tokens s)) then
        (s, Some (playbackSpeed s))
      else if isPlaying s \<and> currentTokenIndex s \<ge> int (length (tokens s)) then
        (s\<lparr>isPlaying := False\<rparr>, None)
      else (s, None))"

text \<open>
  The timer's callback, line 94. \<open>tokens.length\<close> is the value the effect captured; the
  effect is run again, and the timer cleared, whenever \<open>tokens.length\<close> changes, so
  the captured value is the one of the state the callback runs in.
\<close>

definition timer_callback :: "state \<Rightarrow> state" where
  "timer_callback s =
     s\<lparr>currentTokenIndex := min (currentTokenIndex s + 1) (int (length (tokens s)))\<rparr>"

subsection \<open>Event handlers\<close>

text \<open>
  Lines 104 to 123. The first argument says whether the event's target is a textarea,
  the second is \<open>e.key\<close>.
\<close>

definition handleKeyDown :: "bool \<Rightarrow> string \<Rightarrow> state \<Rightarrow> state" where
  "handleKeyDown target_is_textarea key s =
     (if target_is_textarea then s
      else if key = ''ArrowLeft'' then
        s\<lparr>currentTokenIndex := max 0 (currentTokenIndex s - 1), isPlaying := False\<rparr>
      else if key = ''ArrowRight'' then
        s\<lparr>currentTokenIndex := min (currentTokenIndex s + 1) (int (length (tokens s))),
          isPlaying := False\<rparr>
      else if key = '' '' then s\<lparr>isPlaying := \<not> isPlaying s\<rparr>
      else s)"

text \<open>Lines 156 to 168.\<close>

definition togglePlayback :: "state \<Rightarrow> state" where
  "togglePlayback s = s\<lparr>isPlaying := \<not> isPlaying s\<rparr>"

definition resetToStart :: "state \<Rightarrow> state" where
  "resetToStart s = s\<lparr>currentTokenIndex := 0, isPlaying := False\<rparr>"

definition skipToEnd :: "state \<Rightarrow> state" where
  "skipToEnd s = s\<lparr>currentTokenIndex := int (length (tokens s)), isPlaying := False\<rparr>"

text \<open>
  The \<open>onClick\<close> of a token's span, lines 379 to 382 (and of the line-break strip below
  it, lines 393 to 396). \<open>index\<close> is the position \<open>tokens.map\<close> passes to the callback.
\<close>

definition tokenClick :: "int \<Rightarrow> state \<Rightarrow> state" where
  "tokenClick index s = s\<lparr>currentTokenIndex := index + 1, isPlaying := False\<rparr>"

text \<open>The \<open>onChange\<close> of the textarea, line 264, and of the speed select, line 218.\<close>

definition setMarkdown :: "string \<Rightarrow> state \<Rightarrow> state" where
  "setMarkdown text s = s\<lparr>markdown := text\<rparr>"

definition setPlaybackSpeed :: "nat \<Rightarrow> state \<Rightarrow> state" where
  "setPlaybackSpeed v s = s\<lparr>playbackSpeed := v\<rparr>"


subsection \<open>The text on display\<close>

text \<open>
  \<open>xs.slice(0, e)\<close> for an integer \<open>e\<close>: a negative end counts from the end of the
  array, an end past the length is the length.
\<close>

definition slice0 :: "int \<Rightarrow> 'a list \<Rightarrow> 'a list" where
  "slice0 e xs =
     (if e < 0 then take (nat (max (int (length xs) + e) 0)) xs
      else take (nat (min e (int (length xs)))) xs)"

text \<open>Lines 130 to 140.\<close>

definition getCurrentMarkdown :: "tiktoken \<Rightarrow> state \<Rightarrow> string" where
  "getCurrentMarkdown encoder s =
     (if length (tokens s) = 0 then []
      else (case decode encoder (slice0 (currentTokenIndex s) (tokens s)) of
              Some t \<Rightarrow> t
            | None \<Rightarrow> []))"

subsection \<open>Autoplay left to run\<close>

text \<open>
  With no other event in between, the component alternates between the autoplay effect
  and the timer it starts: when the effect has started a timer, the timer's callback
  runs in the state the effect left, the changed cursor makes React run the effect
  again, and so on until a run of the effect starts no timer. \<open>run_autoplay\<close> lists
  the states the effect leaves, one per run. It is a total function: the effect starts
  a timer only below \<open>tokens.length\<close>, and the distance from the cursor to
  \<open>tokens.length\<close> shrinks with every callback.
\<close>

function run_autoplay :: "state \<Rightarrow> state list" where
  "run_autoplay s =
     (if snd (autoplay_effect s) \<noteq> None
      then fst (autoplay_effect s) # run_autoplay (timer_callback (fst (autoplay_effect s)))
      else [fst (autoplay_effect s)])"
  by pat_completeness auto
termination
  by (relation "measure (\<lambda>s. nat (int (length (tokens s)) - currentTokenIndex s))")
     (auto simp: timer_callback_def autoplay_effect_def split: if_splits)

declare run_autoplay.simps [simp del]

subsection \<open>The pending timer\<close>

text \<open>
  For the one timer of the autoplay effect the component is put on a clock: \<open>now\<close> is
  the current time in milliseconds and \<open>timer\<close> the time at which the pending
  \<open>setTimeout\<close> fires, if one is pending.
\<close>

record runtime =
  app :: state
  now :: nat
  timer :: "nat option"

text \<open>
  React runs the autoplay effect again when one of \<open>isPlaying\<close>, \<open>currentTokenIndex\<close>,
  \<open>tokens.length\<close>, \<open>playbackSpeed\<close> (line 100) has changed: first the cleanup of the
  previous run, \<open>clearTimeout(timer)\<close> of line 96, then the body, whose \<open>setTimeout\<close>
  counts from now.
\<close>

definition rerun_autoplay_effect :: "runtime \<Rightarrow> runtime" where
  "rerun_autoplay_effect r =
     (case autoplay_effect (app r) of
        (s', delay) \<Rightarrow> r\<lparr>app := s', timer := map_option (\<lambda>d. now r + d) delay\<rparr>)"

text \<open>
  The speed select changes (line 218) while the clock shows \<open>now r\<close>. Storing the value
  the state already holds is no state change, and no effect runs.
\<close>

definition speed_change :: "nat \<Rightarrow> runtime \<Rightarrow> runtime" where
  "speed_change v r =
     (if v = playbackSpeed (app r) then r
      else rerun_autoplay_effect (r\<lparr>app := setPlaybackSpeed v (app r)\<rparr>))"

subsection \<open>Stand-ins for the two libraries\<close>

text \<open>
  Concrete runs need a concrete encoder and codec. \<open>char_vocab\<close> has one token per
  character and, like the tokenizer's default of refusing special tokens in the input,
  throws on the text of a special token. \<open>lz_sample\<close> is a table of the values of
  \<open>lz-string\<close> that the runs below use: the empty text compresses to \<open>Q\<close> and the text
  \<open>hi\<close> to \<open>BYSyA\<close>; the empty token decompresses to \<open>null\<close>, every token that starts
  with \<open>Q\<close> (the end-of-stream code) to the empty string, and \<open>BYSyA\<close> to \<open>hi\<close>. Outside
  these texts and tokens the table says nothing about the library.
\<close>

definition char_vocab :: tiktoken where
  "char_vocab =
     \<lparr>encode = (\<lambda>t. if t = ''<|endoftext|>'' then None else Some (map of_char t)),
      decode = (\<lambda>ts. Some (map char_of ts))\<rparr>"


section \<open>Properties\<close>

subsection \<open>The autoplay run\<close>

text \<open>
  The effect starts a timer exactly while the player is playing below \<open>tokens.length\<close>,
  and then leaves the state alone; this gives the run its working equation and its
  induction rule.
\<close>

lemma autoplay_effect_timer:
  "snd (autoplay_effect s) \<noteq> None
     \<longleftrightarrow> isPlaying s \<and> currentTokenIndex s < int (length (tokens s))"
  by (simp add: autoplay_effect_def)

lemma autoplay_effect_playing:
  "isPlaying s \<Longrightarrow> currentTokenIndex s < int (length (tokens s)) \<Longrightarrow>
   autoplay_effect s = (s, Some (playbackSpeed s))"
  by (simp add: autoplay_effect_def)

lemma run_autoplay_unfold:
  "run_autoplay s =
     (if isPlaying s \<and> currentTokenIndex s < int (length (tokens s))
      then s # run_autoplay (timer_callback s)
      else [fst (autoplay_effect s)])"
  by (subst run_autoplay.simps) (simp add: autoplay_effect_def)

lemma run_autoplay_induct [case_names 1]:
  assumes "\<And>s. (isPlaying s \<and> currentTokenIndex s < int (length (tokens s))
                 \<Longrightarrow> P (timer_callback s)) \<Longrightarrow> P s"
  shows "P s"
proof (induction s rule: run_autoplay.induct)
  case (1 s)
  show ?case
  proof (rule assms)
    assume a: "isPlaying s \<and> currentTokenIndex s < int (length (tokens s))"
    then have "snd (autoplay_effect s) \<noteq> None" "fst (autoplay_effect s) = s"
      by (simp_all add: autoplay_effect_def)
    then show "P (timer_callback s)" using "1.IH" by simp
  qed
qed

lemma run_autoplay_nonempty: "run_autoplay s \<noteq> []"
  by (subst run_autoplay.simps) simp

lemma run_autoplay_length:
  "isPlaying s \<Longrightarrow> currentTokenIndex s \<le> int (length (tokens s)) \<Longrightarrow>
   length (run_autoplay s) = nat (int (length (tokens s)) - currentTokenIndex s) + 1"
proof (induction s rule: run_autoplay_induct)
  case (1 s)
  show ?case
  proof (cases "currentTokenIndex s < int (length (tokens s))")
    case True
    have "length (run_autoplay (timer_callback s)) =
          nat (int (length (tokens (timer_callback s))) - currentTokenIndex (timer_callback s)) + 1"
      using "1.IH" "1.prems" True by (simp add: timer_callback_def)
    then show ?thesis
      using True "1.prems" by (subst run_autoplay_unfold) (simp add: timer_callback_def nat_diff_distrib)
  next
    case False
    then show ?thesis using "1.prems" by (subst run_autoplay_unfold) simp
  qed
qed

lemma run_autoplay_nth:
  "isPlaying s \<Longrightarrow> currentTokenIndex s \<le> int (length (tokens s)) \<Longrightarrow>
   i < length (run_autoplay s) \<Longrightarrow>
   currentTokenIndex (run_autoplay s ! i) = currentTokenIndex s + int i
   \<and> tokens (run_autoplay s ! i) = tokens s
   \<and> isPlaying (run_autoplay s ! i) = (i + 1 < length (run_autoplay s))"
proof (induction s arbitrary: i rule: run_autoplay_induct)
  case (1 s)
  show ?case
  proof (cases "currentTokenIndex s < int (length (tokens s))")
    case True
    note unf = run_autoplay_unfold [of s]
    show ?thesis
    proof (cases i)
      case 0
      then show ?thesis using True "1.prems" run_autoplay_nonempty [of "timer_callback s"]
        by (simp add: unf)
    next
      case (Suc j)
      have "currentTokenIndex (run_autoplay (timer_callback s) ! j) = currentTokenIndex (timer_callback s) + int j
   \<and> tokens (run_autoplay (timer_callback s) ! j) = tokens (timer_callback s)
   \<and> isPlaying (run_autoplay (timer_callback s) ! j) = (j + 1 < length (run_autoplay (timer_callback s)))"
        using "1.IH" [of j] "1.prems" True Suc by (simp add: unf timer_callback_def)
      then show ?thesis using True "1.prems" Suc by (simp add: unf timer_callback_def)
    qed
  next
    case False
    then show ?thesis using "1.prems"
      by (simp add: run_autoplay_unfold [of s] autoplay_effect_def)
  qed
qed

lemma run_autoplay_last:
  "isPlaying s \<Longrightarrow> currentTokenIndex s \<le> int (length (tokens s)) \<Longrightarrow>
   last (run_autoplay s) = s\<lparr>currentTokenIndex := int (length (tokens s)), isPlaying := False\<rparr>"
proof (induction s rule: run_autoplay_induct)
  case (1 s)
  show ?case
  proof (cases "currentTokenIndex s < int (length (tokens s))")
    case True
    have "last (run_autoplay (timer_callback s)) =
          (timer_callback s)\<lparr>currentTokenIndex := int (length (tokens (timer_callback s))),
                             isPlaying := False\<rparr>"
      using "1.IH" "1.prems" True by (simp add: timer_callback_def)
    then show ?thesis
      using True "1.prems" run_autoplay_nonempty [of "timer_callback s"]
      by (simp add: run_autoplay_unfold [of s] timer_callback_def)
  next
    case False
    then show ?thesis using "1.prems"
      by (simp add: run_autoplay_unfold [of s] autoplay_effect_def)
  qed
qed

lemma run_autoplay_first: "run_autoplay s ! 0 = fst (autoplay_effect s)"
  by (subst run_autoplay.simps) simp

lemma run_autoplay_step:
  "i + 1 < length (run_autoplay s) \<Longrightarrow>
   autoplay_effect (run_autoplay s ! i) = (run_autoplay s ! i, Some (playbackSpeed s))
   \<and> run_autoplay s ! (i + 1) = fst (autoplay_effect (timer_callback (run_autoplay s ! i)))"
proof (induction s arbitrary: i rule: run_autoplay_induct)
  case (1 s)
  show ?case
  proof (cases "isPlaying s \<and> currentTokenIndex s < int (length (tokens s))")
    case True
    then have unf: "run_autoplay s = s # run_autoplay (timer_callback s)"
      by (subst run_autoplay_unfold) simp
    show ?thesis
    proof (cases i)
      case 0
      then show ?thesis
        using True unf run_autoplay_first [of "timer_callback s"]
        by (simp add: autoplay_effect_playing)
    next
      case (Suc j)
      have "j + 1 < length (run_autoplay (timer_callback s))"
        using "1.prems" Suc unf by simp
      then have "autoplay_effect (run_autoplay (timer_callback s) ! j)
            = (run_autoplay (timer_callback s) ! j, Some (playbackSpeed (timer_callback s)))
          \<and> run_autoplay (timer_callback s) ! (j + 1)
            = fst (autoplay_effect (timer_callback (run_autoplay (timer_callback s) ! j)))"
        using "1.IH" [OF True] by blast
      then show ?thesis using Suc unf by (simp add: timer_callback_def)
    qed
  next
    case False
    then have "run_autoplay s = [fst (autoplay_effect s)]"
      by (subst run_autoplay_unfold) auto
    then show ?thesis using "1.prems" by simp
  qed
qed

text \<open>
  C5. From a stopped state, pressing play with the cursor at \<open>tokens.length\<close> changes
  nothing once the autoplay effect has run: the state is the one before and no timer is
  started. Pressing play with the cursor below \<open>tokens.length\<close> and letting the timers
  fire gives a run of \<open>tokens.length - cursor + 1\<close> states. In every state but the last
  the effect starts a timer with the chosen delay and the next state is the one the
  timer's callback and the effect make of it; the cursor moves by exactly one per timer
  and is never above \<open>tokens.length\<close>. In the last state the cursor is \<open>tokens.length\<close>,
  the effect has cleared \<open>isPlaying\<close>, and the effect run in that state starts no further
  timer.
\<close>

theorem autoplay_termination:
  "\<not> isPlaying s \<Longrightarrow>
   (currentTokenIndex s = int (length (tokens s)) \<longrightarrow>
      autoplay_effect (togglePlayback s) = (s, None)
      \<and> run_autoplay (togglePlayback s) = [s])
   \<and> (currentTokenIndex s < int (length (tokens s)) \<longrightarrow>
      length (run_autoplay (togglePlayback s))
        = nat (int (length (tokens s)) - currentTokenIndex s) + 1
      \<and> (\<forall>i < length (run_autoplay (togglePlayback s)).
            currentTokenIndex (run_autoplay (togglePlayback s) ! i) = currentTokenIndex s + int i
            \<and> currentTokenIndex (run_autoplay (togglePlayback s) ! i) \<le> int (length (tokens s))
            \<and> tokens (run_autoplay (togglePlayback s) ! i) = tokens s
            \<and> isPlaying (run_autoplay (togglePlayback s) ! i)
                = (i + 1 < length (run_autoplay (togglePlayback s)))
            \<and> (i + 1 < length (run_autoplay (togglePlayback s)) \<longrightarrow>
                 autoplay_effect (run_autoplay (togglePlayback s) ! i)
                   = (run_autoplay (togglePlayback s) ! i, Some (playbackSpeed s))
                 \<and> run_autoplay (togglePlayback s) ! (i + 1)
                   = fst (autoplay_effect
                            (timer_callback (run_autoplay (togglePlayback s) ! i)))))
      \<and> last (run_autoplay (togglePlayback s))
          = s\<lparr>currentTokenIndex := int (length (tokens s))\<rparr>
      \<and> autoplay_effect (last (run_autoplay (togglePlayback s)))
          = (last (run_autoplay (togglePlayback s)), None))"
proof (intro conjI impI)
  assume np: "\<not> isPlaying s" and eq: "currentTokenIndex s = int (length (tokens s))"
  show "autoplay_effect (togglePlayback s) = (s, None)"
    using np eq by (simp add: autoplay_effect_def togglePlayback_def)
  have "run_autoplay (togglePlayback s) = [fst (autoplay_effect (togglePlayback s))]"
    using eq by (subst run_autoplay_unfold) (simp add: togglePlayback_def)
  then show "run_autoplay (togglePlayback s) = [s]"
    using np eq by (simp add: autoplay_effect_def togglePlayback_def)
next
  assume np: "\<not> isPlaying s" and lt: "currentTokenIndex s < int (length (tokens s))"
  let ?p = "togglePlayback s"
  have p: "isPlaying ?p" "currentTokenIndex ?p \<le> int (length (tokens ?p))"
    "currentTokenIndex ?p = currentTokenIndex s" "tokens ?p = tokens s"
    "playbackSpeed ?p = playbackSpeed s"
    using np lt by (simp_all add: togglePlayback_def)
  show len: "length (run_autoplay ?p) = nat (int (length (tokens s)) - currentTokenIndex s) + 1"
    using run_autoplay_length [OF p(1) p(2)] p(3) p(4) by simp
  show "\<forall>i < length (run_autoplay ?p).
            currentTokenIndex (run_autoplay ?p ! i) = currentTokenIndex s + int i
            \<and> currentTokenIndex (run_autoplay ?p ! i) \<le> int (length (tokens s))
            \<and> tokens (run_autoplay ?p ! i) = tokens s
            \<and> isPlaying (run_autoplay ?p ! i) = (i + 1 < length (run_autoplay ?p))
            \<and> (i + 1 < length (run_autoplay ?p) \<longrightarrow>
                 autoplay_effect (run_autoplay ?p ! i)
                   = (run_autoplay ?p ! i, Some (playbackSpeed s))
                 \<and> run_autoplay ?p ! (i + 1)
                   = fst (autoplay_effect (timer_callback (run_autoplay ?p ! i))))"
  proof (intro allI impI)
    fix i assume i: "i < length (run_autoplay ?p)"
    have n: "currentTokenIndex (run_autoplay ?p ! i) = currentTokenIndex ?p + int i
      \<and> tokens (run_autoplay ?p ! i) = tokens ?p
      \<and> isPlaying (run_autoplay ?p ! i) = (i + 1 < length (run_autoplay ?p))"
      using run_autoplay_nth [OF p(1) p(2) i] .
    have b: "currentTokenIndex s + int i \<le> int (length (tokens s))"
      using i len lt by linarith
    have st: "i + 1 < length (run_autoplay ?p) \<longrightarrow>
                 autoplay_effect (run_autoplay ?p ! i)
                   = (run_autoplay ?p ! i, Some (playbackSpeed s))
                 \<and> run_autoplay ?p ! (i + 1)
                   = fst (autoplay_effect (timer_callback (run_autoplay ?p ! i)))"
      using run_autoplay_step [of i ?p] p(5) by simp
    show "currentTokenIndex (run_autoplay ?p ! i) = currentTokenIndex s + int i
            \<and> currentTokenIndex (run_autoplay ?p ! i) \<le> int (length (tokens s))
            \<and> tokens (run_autoplay ?p ! i) = tokens s
            \<and> isPlaying (run_autoplay ?p ! i) = (i + 1 < length (run_autoplay ?p))
            \<and> (i + 1 < length (run_autoplay ?p) \<longrightarrow>
                 autoplay_effect (run_autoplay ?p ! i)
                   = (run_autoplay ?p ! i, Some (playbackSpeed s))
                 \<and> run_autoplay ?p ! (i + 1)
                   = fst (autoplay_effect (timer_callback (run_autoplay ?p ! i))))"
      using n b st p(3) p(4) by simp
  qed
  have l: "last (run_autoplay ?p) = ?p\<lparr>currentTokenIndex := int (length (tokens ?p)), isPlaying := False\<rparr>"
    using run_autoplay_last [OF p(1) p(2)] .
  show l': "last (run_autoplay ?p) = s\<lparr>currentTokenIndex := int (length (tokens s))\<rparr>"
    using l np by (simp add: togglePlayback_def)
  show "autoplay_effect (last (run_autoplay ?p)) = (last (run_autoplay ?p), None)"
    using l' np by (simp add: autoplay_effect_def)
qed

theorem autoplay_termination_witness:
  "\<not> isPlaying \<lparr>markdown = ''abc'', tokens = [97, 98, 99], currentTokenIndex = 1,
                 isPlaying = False, playbackSpeed = 100\<rparr>
   \<and> run_autoplay (togglePlayback
           \<lparr>markdown = ''abc'', tokens = [97, 98, 99], currentTokenIndex = 1,
            isPlaying = False, playbackSpeed = 100\<rparr>)
       = [\<lparr>markdown = ''abc'', tokens = [97, 98, 99], currentTokenIndex = 1,
           isPlaying = True, playbackSpeed = 100\<rparr>,
          \<lparr>markdown = ''abc'', tokens = [97, 98, 99], currentTokenIndex = 2,
           isPlaying = True, playbackSpeed = 100\<rparr>,
          \<lparr>markdown = ''abc'', tokens = [97, 98, 99], currentTokenIndex = 3,
           isPlaying = False, playbackSpeed = 100\<rparr>]
   \<and> autoplay_effect
         \<lparr>markdown = ''abc'', tokens = [97, 98, 99], currentTokenIndex = 2,
          isPlaying = True, playbackSpeed = 100\<rparr>
       = (\<lparr>markdown = ''abc'', tokens = [97, 98, 99], currentTokenIndex = 2,
           isPlaying = True, playbackSpeed = 100\<rparr>, Some 100)
   \<and> autoplay_effect (togglePlayback
           \<lparr>markdown = ''abc'', tokens = [97, 98, 99], currentTokenIndex = 3,
            isPlaying = False, playbackSpeed = 100\<rparr>)
       = (\<lparr>markdown = ''abc'', tokens = [97, 98, 99], currentTokenIndex = 3,
           isPlaying = False, playbackSpeed = 100\<rparr>, None)"
  using autoplay_termination
    [of "\<lparr>markdown = ''abc'', tokens = [97, 98, 99], currentTokenIndex = 1,
          isPlaying = False, playbackSpeed = 100\<rparr>"]
    autoplay_termination
    [of "\<lparr>markdown = ''abc'', tokens = [97, 98, 99], currentTokenIndex = 3,
          isPlaying = False, playbackSpeed = 100\<rparr>"]
  by (simp add: run_autoplay.simps togglePlayback_def timer_callback_def autoplay_effect_def)

subsection \<open>Display and navigation\<close>

text \<open>
  C10. With an empty token list \<open>getCurrentMarkdown\<close> returns the empty string whatever
  the cursor is, also a cursor above 0 left from an earlier token list, and whatever
  the encoder's \<open>decode\<close> would return: the result does not go through \<open>decode\<close>.
\<close>

theorem getCurrentMarkdown_no_tokens:
  "tokens s = [] \<Longrightarrow> getCurrentMarkdown encoder s = []"
  by (simp add: getCurrentMarkdown_def)

theorem getCurrentMarkdown_no_tokens_witness:
  "tokens \<lparr>markdown = ''x'', tokens = [], currentTokenIndex = 5,
           isPlaying = False, playbackSpeed = 100\<rparr> = []
   \<and> getCurrentMarkdown \<lparr>encode = (\<lambda>t. None), decode = (\<lambda>ts. Some ''stale'')\<rparr>
        \<lparr>markdown = ''x'', tokens = [], currentTokenIndex = 5,
         isPlaying = False, playbackSpeed = 100\<rparr> = []"
  using getCurrentMarkdown_no_tokens
    [of "\<lparr>markdown = ''x'', tokens = [], currentTokenIndex = 5,
          isPlaying = False, playbackSpeed = 100\<rparr>"
        "\<lparr>encode = (\<lambda>t. None), decode = (\<lambda>ts. Some ''stale'')\<rparr>"]
  by simp

text \<open>
  C4. Each manual navigation handler leaves \<open>isPlaying\<close> false, whatever the state
  before: the two arrow keys (for a key event the handler does not ignore), the two
  skip buttons and a click on a token. The autoplay effect that runs after the
  handler then starts no timer and changes nothing.
\<close>

theorem manual_navigation_stops_autoplay:
  "(\<forall>nav \<in> {handleKeyDown False ''ArrowRight'', handleKeyDown False ''ArrowLeft'',
              resetToStart, skipToEnd, tokenClick index}.
      \<not> isPlaying (nav s) \<and> autoplay_effect (nav s) = (nav s, None))"
  by (simp add: handleKeyDown_def resetToStart_def skipToEnd_def tokenClick_def
      autoplay_effect_def)

theorem manual_navigation_stops_autoplay_witness:
  "isPlaying \<lparr>markdown = ''ab'', tokens = [1, 2], currentTokenIndex = 1,
              isPlaying = True, playbackSpeed = 50\<rparr>
   \<and> \<not> isPlaying (handleKeyDown False ''ArrowRight''
         \<lparr>markdown = ''ab'', tokens = [1, 2], currentTokenIndex = 1,
          isPlaying = True, playbackSpeed = 50\<rparr>)
   \<and> \<not> isPlaying (tokenClick 0
         \<lparr>markdown = ''ab'', tokens = [1, 2], currentTokenIndex = 1,
          isPlaying = True, playbackSpeed = 50\<rparr>)"
  using manual_navigation_stops_autoplay
    [of 0 "\<lparr>markdown = ''ab'', tokens = [1, 2], currentTokenIndex = 1,
             isPlaying = True, playbackSpeed = 50\<rparr>"]
  by simp

text \<open>
  What the navigation handlers store. The two skip buttons and \<open>ArrowRight\<close> reach the
  range from 0 to \<open>tokens.length\<close> by themselves, \<open>ArrowRight\<close> from any cursor that is
  not negative; \<open>ArrowLeft\<close> bounds the cursor from below only and stays in the range
  from a cursor that is not above \<open>tokens.length\<close>; a click keeps the range for the
  indices \<open>tokens.map\<close> passes, 0 to \<open>tokens.length - 1\<close>.
\<close>

lemma navigation_stored_cursor:
  "currentTokenIndex (handleKeyDown False ''ArrowLeft'' s) = max 0 (currentTokenIndex s - 1)"
  "currentTokenIndex (handleKeyDown False ''ArrowRight'' s)
     = min (currentTokenIndex s + 1) (int (length (tokens s)))"
  "currentTokenIndex (resetToStart s) = 0"
  "currentTokenIndex (skipToEnd s) = int (length (tokens s))"
  "currentTokenIndex (tokenClick index s) = index + 1"
  by (simp_all add: handleKeyDown_def resetToStart_def skipToEnd_def tokenClick_def)

lemma navigation_keeps_tokens:
  "tokens (handleKeyDown ta key s) = tokens s"
  "tokens (resetToStart s) = tokens s"
  "tokens (skipToEnd s) = tokens s"
  "tokens (tokenClick index s) = tokens s"
  by (simp_all add: handleKeyDown_def resetToStart_def skipToEnd_def tokenClick_def)

lemma navigation_cursor_in_range:
  "currentTokenIndex s \<le> int (length (tokens s)) \<Longrightarrow>
     0 \<le> currentTokenIndex (handleKeyDown False ''ArrowLeft'' s)
     \<and> currentTokenIndex (handleKeyDown False ''ArrowLeft'' s) \<le> int (length (tokens s))"
  "0 \<le> currentTokenIndex s \<Longrightarrow>
     0 \<le> currentTokenIndex (handleKeyDown False ''ArrowRight'' s)
     \<and> currentTokenIndex (handleKeyDown False ''ArrowRight'' s) \<le> int (length (tokens s))"
  "0 \<le> currentTokenIndex (resetToStart s)
     \<and> currentTokenIndex (resetToStart s) \<le> int (length (tokens s))"
  "0 \<le> currentTokenIndex (skipToEnd s)
     \<and> currentTokenIndex (skipToEnd s) \<le> int (length (tokens s))"
  "0 \<le> index \<Longrightarrow> index < int (length (tokens s)) \<Longrightarrow>
     0 \<le> currentTokenIndex (tokenClick index s)
     \<and> currentTokenIndex (tokenClick index s) \<le> int (length (tokens s))"
  by (simp_all add: handleKeyDown_def resetToStart_def skipToEnd_def tokenClick_def)


subsection \<open>Editing the text\<close>

text \<open>
  C6. Replacing the text by a non-empty text that the encoder accepts stores the new
  token list and sets the cursor to 0; \<open>isPlaying\<close> and the speed stay as they were, also
  after the autoplay effect has run on the new, non-empty token list. Replacing the text
  by the empty string changes the text only: the effect's guard skips the encoder, and
  token list, cursor and \<open>isPlaying\<close> are the ones from before.
\<close>

theorem edit_resets_tokens_and_cursor:
  "(text \<noteq> [] \<longrightarrow> encode encoder text = Some ts \<longrightarrow>
      tokenize_effect encoder (setMarkdown text s)
        = s\<lparr>markdown := text, tokens := ts, currentTokenIndex := 0\<rparr>
      \<and> (ts \<noteq> [] \<longrightarrow>
           fst (autoplay_effect (tokenize_effect encoder (setMarkdown text s)))
             = s\<lparr>markdown := text, tokens := ts, currentTokenIndex := 0\<rparr>))
   \<and> tokenize_effect encoder (setMarkdown [] s) = s\<lparr>markdown := []\<rparr>"
  by (simp add: tokenize_effect_def setMarkdown_def autoplay_effect_def)

theorem edit_resets_tokens_and_cursor_witness:
  "encode char_vocab ''hi'' = Some [104, 105]
   \<and> fst (autoplay_effect (tokenize_effect char_vocab (setMarkdown ''hi''
        \<lparr>markdown = ''abc'', tokens = [97, 98, 99], currentTokenIndex = 2,
         isPlaying = True, playbackSpeed = 100\<rparr>)))
     = \<lparr>markdown = ''hi'', tokens = [104, 105], currentTokenIndex = 0,
        isPlaying = True, playbackSpeed = 100\<rparr>"
proof -
  have e: "encode char_vocab ''hi'' = Some [104, 105]"
    by (simp add: char_vocab_def)
  show ?thesis
    using e edit_resets_tokens_and_cursor
      [of "''hi''" char_vocab "[104, 105]"
          "\<lparr>markdown = ''abc'', tokens = [97, 98, 99], currentTokenIndex = 2,
            isPlaying = True, playbackSpeed = 100\<rparr>"]
    by auto
qed

text \<open>
  Emptying the text during playback at cursor 2 of 3 leaves the three tokens, the cursor
  2 and \<open>isPlaying\<close>, although the empty text encodes to no tokens; and typing a new text
  during playback leaves the player playing.
\<close>

theorem edit_keeps_playing_and_skips_empty_text:
  "encode char_vocab [] = Some []
   \<and> tokenize_effect char_vocab (setMarkdown []
        \<lparr>markdown = ''abc'', tokens = [97, 98, 99], currentTokenIndex = 2,
         isPlaying = True, playbackSpeed = 100\<rparr>)
     = \<lparr>markdown = [], tokens = [97, 98, 99], currentTokenIndex = 2,
        isPlaying = True, playbackSpeed = 100\<rparr>
   \<and> isPlaying (fst (autoplay_effect (tokenize_effect char_vocab (setMarkdown ''hi''
        \<lparr>markdown = ''abc'', tokens = [97, 98, 99], currentTokenIndex = 2,
         isPlaying = True, playbackSpeed = 100\<rparr>))))"
  by (simp add: char_vocab_def tokenize_effect_def setMarkdown_def autoplay_effect_def)

text \<open>
  C8. The text is replaced, at cursor 2 of 3, by a text the encoder throws on. The
  \<open>catch\<close> branch stores the empty token list and leaves the cursor at 2, above the new
  \<open>tokens.length\<close> of 0; the text on display is empty.
\<close>

theorem encode_failure_keeps_cursor:
  "encode char_vocab ''<|endoftext|>'' = None
   \<and> tokenize_effect char_vocab (setMarkdown ''<|endoftext|>''
        \<lparr>markdown = ''abc'', tokens = [97, 98, 99], currentTokenIndex = 2,
         isPlaying = False, playbackSpeed = 100\<rparr>)
     = \<lparr>markdown = ''<|endoftext|>'', tokens = [], currentTokenIndex = 2,
        isPlaying = False, playbackSpeed = 100\<rparr>
   \<and> getCurrentMarkdown char_vocab (tokenize_effect char_vocab (setMarkdown ''<|endoftext|>''
        \<lparr>markdown = ''abc'', tokens = [97, 98, 99], currentTokenIndex = 2,
         isPlaying = False, playbackSpeed = 100\<rparr>)) = []"
  by (simp add: char_vocab_def tokenize_effect_def setMarkdown_def getCurrentMarkdown_def)

subsection \<open>Changing the speed\<close>

text \<open>
  C9. While a timer is pending (the player is playing and the cursor is below
  \<open>tokens.length\<close>), choosing another speed clears the pending timer and starts a new one
  that fires the new delay after the moment of the change. With the player stopped the
  change stores the speed and no timer is started.
\<close>

theorem speed_change_restarts_timer:
  "v \<noteq> playbackSpeed (app r) \<Longrightarrow>
   (isPlaying (app r) \<and> currentTokenIndex (app r) < int (length (tokens (app r))) \<longrightarrow>
      speed_change v r = r\<lparr>app := (app r)\<lparr>playbackSpeed := v\<rparr>, timer := Some (now r + v)\<rparr>)
   \<and> (\<not> isPlaying (app r) \<longrightarrow>
      speed_change v r = r\<lparr>app := (app r)\<lparr>playbackSpeed := v\<rparr>, timer := None\<rparr>)"
  by (simp add: speed_change_def rerun_autoplay_effect_def autoplay_effect_def
      setPlaybackSpeed_def)

theorem speed_change_restarts_timer_witness:
  "speed_change 50
     \<lparr>app = \<lparr>markdown = ''abc'', tokens = [97, 98, 99], currentTokenIndex = 1,
             isPlaying = True, playbackSpeed = 100\<rparr>, now = 30, timer = Some 100\<rparr>
   = \<lparr>app = \<lparr>markdown = ''abc'', tokens = [97, 98, 99], currentTokenIndex = 1,
             isPlaying = True, playbackSpeed = 50\<rparr>, now = 30, timer = Some 80\<rparr>"
  using speed_change_restarts_timer
    [of 50 "\<lparr>app = \<lparr>markdown = ''abc'', tokens = [97, 98, 99], currentTokenIndex = 1,
             isPlaying = True, playbackSpeed = 100\<rparr>, now = 30, timer = Some 100\<rparr>"]
  by simp

text \<open>
  Playback starts at time 0 at speed 50, so a timer is pending for time 50. At time 40
  the speed is changed to 200: the tick that was due at 50 is now due at 240.
\<close>

theorem speed_change_moves_pending_tick:
  "timer (rerun_autoplay_effect
     \<lparr>app = \<lparr>markdown = ''abc'', tokens = [97, 98, 99], currentTokenIndex = 1,
             isPlaying = True, playbackSpeed = 50\<rparr>, now = 0, timer = None\<rparr>) = Some 50
   \<and> timer (speed_change 200
     \<lparr>app = \<lparr>markdown = ''abc'', tokens = [97, 98, 99], currentTokenIndex = 1,
             isPlaying = True, playbackSpeed = 50\<rparr>, now = 40, timer = Some 50\<rparr>) = Some 240"
  by (simp add: speed_change_def rerun_autoplay_effect_def autoplay_effect_def
      setPlaybackSpeed_def)

subsection \<open>The share link\<close>




end
